theory Spec2Isabelle
  imports Main "HOL-Library.Multiset"
begin

section \<open>Data model (src/types.ts)\<close>

text \<open>
  \<^verbatim>\<open>ProductCategory\<close> is a two-valued enum; the two string-literal unions of
  \<^verbatim>\<open>LensSelection\<close> are enums as well.
\<close>

datatype ProductCategory = POWER_SPECTACLES | SUNGLASSES

datatype LensType = SingleVision | Bifocal | Progressive

datatype LensMaterial = Plastic | Polycarbonate | HighIndex

text \<open>
  Amounts are JavaScript numbers in the source. Every amount of \<^verbatim>\<open>LENS_PRICING\<close> and
  \<^verbatim>\<open>MOCK_PRODUCTS\<close> is a whole number, and doubles add whole numbers of that size
  exactly, so an amount is an \<open>int\<close> here. The fields \<^verbatim>\<open>id\<close> of the source are
  written \<open>product_id\<close> and \<open>prescription_id\<close>, and \<^verbatim>\<open>image\<close> is \<open>image_url\<close>.
\<close>

record Product =
  product_id :: string
  name :: string
  category :: ProductCategory
  brand :: string
  price :: int
  image_url :: string
  stock :: int
  description :: string

record LensSelection =
  type :: LensType
  material :: LensMaterial
  coatings :: "string list"
  priceAdjustment :: int

text \<open>
  The customizer holds a \<^verbatim>\<open>Partial<Prescription>\<close>, and the extraction result is
  parsed JSON whose schema marks no property as required: every field, and every
  sub-field of an eye, may be absent. Absent is \<open>None\<close>.
\<close>

record Eye =
  sph :: "string option"
  cyl :: "string option"
  axis :: "string option"

record Prescription =
  prescription_id :: "string option"
  userId :: "string option"
  rightEye :: "Eye option"
  leftEye :: "Eye option"
  pd :: "string option"
  fileUrl :: "string option"

section \<open>Pricing table (src/constants.tsx)\<close>

fun LENS_PRICING_types :: "LensType \<Rightarrow> int" where
  "LENS_PRICING_types SingleVision = 50"
| "LENS_PRICING_types Bifocal = 120"
| "LENS_PRICING_types Progressive = 250"

fun LENS_PRICING_materials :: "LensMaterial \<Rightarrow> int" where
  "LENS_PRICING_materials Plastic = 0"
| "LENS_PRICING_materials Polycarbonate = 40"
| "LENS_PRICING_materials HighIndex = 100"

definition LENS_PRICING_coatings :: "(string \<times> int) list" where
  "LENS_PRICING_coatings =
     [(''Anti-glare'', 30), (''Blue Light'', 45), (''UV Protection'', 20),
      (''Scratch Resistant'', 25)]"

section \<open>The values \<^verbatim>\<open>calculateTotal\<close> computes with\<close>

text \<open>
  \<^verbatim>\<open>(LENS_PRICING.coatings as any)[c]\<close> reads a property of an object literal by an
  arbitrary string. It yields the number of an own key, the inherited member for a
  property name of \<^verbatim>\<open>Object.prototype\<close> (a function or an object), and
  \<^verbatim>\<open>undefined\<close> for any other string. \<^verbatim>\<open>+\<close> on these values adds two numbers,
  gives \<^verbatim>\<open>NaN\<close> when an operand is \<^verbatim>\<open>undefined\<close> or \<^verbatim>\<open>NaN\<close>, and concatenates
  strings as soon as one operand is an object, a function or a string. The text of such
  a string is not modelled: \<open>Str\<close> stands for any string.
\<close>

datatype jsval = Num int | NaN | Undefined | Obj | Str

fun js_add :: "jsval \<Rightarrow> jsval \<Rightarrow> jsval" where
  "js_add Str _ = Str"
| "js_add _ Str = Str"
| "js_add Obj _ = Str"
| "js_add _ Obj = Str"
| "js_add (Num a) (Num b) = Num (a + b)"
| "js_add _ _ = NaN"

definition Object_prototype_keys :: "string list" where
  "Object_prototype_keys =
     [''constructor'', ''hasOwnProperty'', ''isPrototypeOf'', ''propertyIsEnumerable'',
      ''toLocaleString'', ''toString'', ''valueOf'', ''__proto__'',
      ''__defineGetter__'', ''__defineSetter__'', ''__lookupGetter__'',
      ''__lookupSetter__'']"

definition coatings_lookup :: "string \<Rightarrow> jsval" where
  "coatings_lookup c =
     (case map_of LENS_PRICING_coatings c of
        Some n \<Rightarrow> Num n
      | None \<Rightarrow> if c \<in> set Object_prototype_keys then Obj else Undefined)"

section \<open>Price calculator (src/App.tsx, \<^verbatim>\<open>calculateTotal\<close>)\<close>

definition isPower :: "Product \<Rightarrow> bool" where
  "isPower product \<longleftrightarrow> category product = POWER_SPECTACLES"

text \<open>
  \<^verbatim>\<open>
  let extra = 0;
  if (isPower) {
    extra += LENS_PRICING.types[lensSelection.type];
    extra += LENS_PRICING.materials[lensSelection.material];
    lensSelection.coatings.forEach(c => { extra += (LENS_PRICING.coatings as any)[c]; });
  }
  return product.price + extra;
  \<close>
  The \<^verbatim>\<open>forEach\<close> is a left fold over the list, in list order.
\<close>

definition add_coating :: "jsval \<Rightarrow> string \<Rightarrow> jsval" where
  \<comment> \<open>the callback of \<^verbatim>\<open>forEach\<close>: \<^verbatim>\<open>extra += (LENS_PRICING.coatings as any)[c]\<close>\<close>
  "add_coating extra c = js_add extra (coatings_lookup c)"

definition calculateTotal :: "Product \<Rightarrow> LensSelection \<Rightarrow> jsval" where
  "calculateTotal product lensSelection =
     (let extra0 = Num 0;
          extra =
            (if isPower product then
               (let extra1 = js_add extra0 (Num (LENS_PRICING_types (type lensSelection)));
                    extra2 = js_add extra1 (Num (LENS_PRICING_materials (material lensSelection)))
                in foldl add_coating extra2 (coatings lensSelection))
             else extra0)
      in js_add (Num (price product)) extra)"

section \<open>Customization session (src/App.tsx, \<^verbatim>\<open>ProductCustomizer\<close>)\<close>

text \<open>
  \<^verbatim>\<open>handleFinish\<close> passes \<^verbatim>\<open>{...product, finalPrice, prescription, lensSelection,
  customized: true}\<close> to \<^verbatim>\<open>addToCart\<close>; \<open>None\<close> is \<^verbatim>\<open>null\<close>.
\<close>

record CartLineItem =
  item_product :: Product
  finalPrice :: jsval
  item_prescription :: "Prescription option"
  item_lensSelection :: "LensSelection option"
  customized :: bool

text \<open>
  One record holds everything the handlers read and write:
  \<^item> the six \<^verbatim>\<open>useState\<close> cells of the component (\<open>step\<close> to \<open>isRecLoading\<close>);
  \<^item> the module-level \<^verbatim>\<open>recommendationCache\<close> and the \<^verbatim>\<open>cart\<close> of \<^verbatim>\<open>App\<close>, which
    outlive the component;
  \<^item> the environment: every call of \<^verbatim>\<open>getLensRecommendation\<close> issued so far
    (\<open>advisoryCalls\<close>), the calls and file reads still in flight, and the messages
    shown with \<^verbatim>\<open>alert\<close>.
  State is written through the setters only and every handler runs to its next
  \<^verbatim>\<open>await\<close> before another event is taken, so a handler is a function on this record and
  each \<^verbatim>\<open>await\<close> splits an \<^verbatim>\<open>async\<close> function into the part before it and one
  continuation per outcome of the promise. The component has no cleanup on unmount and the
  continuations test nothing before they run, so a completion that arrives after
  \<^verbatim>\<open>handleFinish\<close> has navigated away is handled like any other. What the setters then
  do to the six cells is decided by React, not by this repository: after
  \<^verbatim>\<open>handleFinish\<close> only the fields that outlive the component are meaningful.
\<close>

record State =
  step :: int
  prescription :: Prescription
  lensSelection :: LensSelection
  isAiLoading :: bool
  lensRecommendation :: "string option"
  isRecLoading :: bool
  recommendationCache :: "string \<rightharpoonup> string"
  cart :: "CartLineItem list"
  advisoryCalls :: "Prescription list"
  advisoryPending :: "Prescription list"
  readsPending :: nat
  extractionPending :: nat
  alerts :: "string list"

definition initial_prescription :: Prescription where
  "initial_prescription =
     \<lparr>prescription_id = None, userId = None,
      rightEye = Some \<lparr>sph = Some ''0.00'', cyl = Some ''0.00'', axis = Some ''0''\<rparr>,
      leftEye = Some \<lparr>sph = Some ''0.00'', cyl = Some ''0.00'', axis = Some ''0''\<rparr>,
      pd = Some ''63'', fileUrl = None\<rparr>"

definition initial_lensSelection :: LensSelection where
  "initial_lensSelection =
     \<lparr>type = SingleVision, material = Plastic, coatings = [], priceAdjustment = 0\<rparr>"

definition init :: "(string \<rightharpoonup> string) \<Rightarrow> CartLineItem list \<Rightarrow> State" where
  \<comment> \<open>a freshly mounted customizer; the cache and the cart are whatever they were\<close>
  "init cache items =
     \<lparr>step = 1, prescription = initial_prescription, lensSelection = initial_lensSelection,
      isAiLoading = False, lensRecommendation = None, isRecLoading = False,
      recommendationCache = cache, cart = items,
      advisoryCalls = [], advisoryPending = [], readsPending = 0, extractionPending = 0,
      alerts = []\<rparr>"

subsection \<open>\<^verbatim>\<open>fetchRecommendation\<close>\<close>

definition truthy :: "string option \<Rightarrow> bool" where
  \<comment> \<open>a string-or-absent value in a condition: absent and the empty string are falsy\<close>
  "truthy v = (case v of None \<Rightarrow> False | Some s \<Rightarrow> s \<noteq> [])"

text \<open>
  \<^verbatim>\<open>JSON.stringify\<close> is the parameter \<open>stringify\<close>. Its results are JSON texts, none
  of which is a property name of \<^verbatim>\<open>Object.prototype\<close>, so a lookup in the cache object
  finds the keys stored in it and nothing else.
  \<^verbatim>\<open>
  const cacheKey = JSON.stringify(pData);
  if (recommendationCache[cacheKey]) {
    setLensRecommendation(recommendationCache[cacheKey]);
    return;
  }
  setIsRecLoading(true);
  try {
    const rec = await getLensRecommendation(pData);
  \<close>
\<close>

definition fetchRecommendation :: "(Prescription \<Rightarrow> string) \<Rightarrow> Prescription \<Rightarrow> State \<Rightarrow> State" where
  "fetchRecommendation stringify pData w =
     (let cacheKey = stringify pData in
      if truthy (recommendationCache w cacheKey)
      then w\<lparr>lensRecommendation := recommendationCache w cacheKey\<rparr>
      else w\<lparr>isRecLoading := True,
             advisoryCalls := advisoryCalls w @ [pData],
             advisoryPending := advisoryPending w @ [pData]\<rparr>)"

text \<open>
  \<^verbatim>\<open>
    const cleanedRec = rec || "Based on your data, standard materials are suitable.";
    recommendationCache[cacheKey] = cleanedRec;
    setLensRecommendation(cleanedRec);
  } catch (err) {
    console.error("Recommendation Error:", err);
  } finally {
    setIsRecLoading(false);
  }
  \<close>
  \<open>rec\<close> is \<^verbatim>\<open>response.text\<close>, which may be \<^verbatim>\<open>undefined\<close>. \<^verbatim>\<open>console.error\<close>
  writes to the console only and has no part in the model.
\<close>

definition fetchRecommendation_fulfilled ::
    "(Prescription \<Rightarrow> string) \<Rightarrow> Prescription \<Rightarrow> string option \<Rightarrow> State \<Rightarrow> State" where
  "fetchRecommendation_fulfilled stringify pData rec w =
     (let cacheKey = stringify pData;
          cleanedRec = (case rec of
                          Some r \<Rightarrow> if r \<noteq> [] then r
                                    else ''Based on your data, standard materials are suitable.''
                        | None \<Rightarrow> ''Based on your data, standard materials are suitable.'')
      in w\<lparr>recommendationCache := (recommendationCache w)(cacheKey \<mapsto> cleanedRec),
            lensRecommendation := Some cleanedRec,
            isRecLoading := False,
            advisoryPending := remove1 pData (advisoryPending w)\<rparr>)"

definition fetchRecommendation_rejected :: "Prescription \<Rightarrow> State \<Rightarrow> State" where
  "fetchRecommendation_rejected pData w =
     w\<lparr>isRecLoading := False, advisoryPending := remove1 pData (advisoryPending w)\<rparr>"

subsection \<open>\<^verbatim>\<open>handleFileUpload\<close>\<close>

text \<open>
  \<^verbatim>\<open>({ ...prev, ...data })\<close>: a property of \<open>data\<close> replaces the property of the same
  name, whole; a property \<open>data\<close> lacks is kept.
\<close>

definition overlay :: "'a option \<Rightarrow> 'a option \<Rightarrow> 'a option" where
  "overlay old new = (case new of Some v \<Rightarrow> Some v | None \<Rightarrow> old)"

definition spread :: "Prescription \<Rightarrow> Prescription \<Rightarrow> Prescription" where
  "spread prev data =
     \<lparr>prescription_id = overlay (prescription_id prev) (prescription_id data),
      userId = overlay (userId prev) (userId data),
      rightEye = overlay (rightEye prev) (rightEye data),
      leftEye = overlay (leftEye prev) (leftEye data),
      pd = overlay (pd prev) (pd data),
      fileUrl = overlay (fileUrl prev) (fileUrl data)\<rparr>"

text \<open>
  \<^verbatim>\<open>
  const file = e.target.files?.[0];
  if (file) {
    setIsAiLoading(true);
    const reader = new FileReader();
    reader.onloadend = async () => { ... };
    reader.readAsDataURL(file);
  }
  \<close>
\<close>

definition handleFileUpload :: "bool \<Rightarrow> State \<Rightarrow> State" where
  "handleFileUpload file w =
     (if file then w\<lparr>isAiLoading := True, readsPending := readsPending w + 1\<rparr> else w)"

text \<open>
  \<^verbatim>\<open>
  const base64 = (reader.result as string).split(',')[1];
  try {
    const data = await analyzePrescriptionImage(base64);
  \<close>
  When the read failed \<^verbatim>\<open>reader.result\<close> is \<^verbatim>\<open>null\<close> and the first line throws
  outside the \<^verbatim>\<open>try\<close>: nothing is called and no cell is written. Otherwise the
  extraction call is issued.
\<close>

definition reader_onloadend :: "bool \<Rightarrow> State \<Rightarrow> State" where
  "reader_onloadend result w =
     (if result
      then w\<lparr>readsPending := readsPending w - 1, extractionPending := extractionPending w + 1\<rparr>
      else w\<lparr>readsPending := readsPending w - 1\<rparr>)"

text \<open>
  \<^verbatim>\<open>
    setPrescription(prev => ({ ...prev, ...data }));
    fetchRecommendation(data);
  } catch (err) {
    console.error("AI Error:", err);
    alert("Could not analyze prescription. Please enter manually.");
  } finally {
    setIsAiLoading(false);
  }
  \<close>
\<close>

definition extraction_fulfilled :: "(Prescription \<Rightarrow> string) \<Rightarrow> Prescription \<Rightarrow> State \<Rightarrow> State" where
  "extraction_fulfilled stringify data w =
     (let w1 = w\<lparr>prescription := spread (prescription w) data\<rparr>;
          w2 = fetchRecommendation stringify data w1
      in w2\<lparr>isAiLoading := False, extractionPending := extractionPending w2 - 1\<rparr>)"

definition extraction_rejected :: "State \<Rightarrow> State" where
  "extraction_rejected w =
     w\<lparr>alerts := alerts w @ [''Could not analyze prescription. Please enter manually.''],
       isAiLoading := False,
       extractionPending := extractionPending w - 1\<rparr>"

subsection \<open>Manual entry, lens selection and steps\<close>

datatype EyeField = SPH | CYL | AXIS

text \<open>
  \<^verbatim>\<open>{...prescription.rightEye!, sph: e.target.value}\<close>; spreading \<^verbatim>\<open>undefined\<close> adds
  nothing.
\<close>

definition spread_eye :: "Eye option \<Rightarrow> Eye" where
  "spread_eye eye = (case eye of None \<Rightarrow> \<lparr>sph = None, cyl = None, axis = None\<rparr> | Some e \<Rightarrow> e)"

fun set_field :: "EyeField \<Rightarrow> string \<Rightarrow> Eye \<Rightarrow> Eye" where
  "set_field SPH v e = e\<lparr>sph := Some v\<rparr>"
| "set_field CYL v e = e\<lparr>cyl := Some v\<rparr>"
| "set_field AXIS v e = e\<lparr>axis := Some v\<rparr>"

definition edit_rightEye :: "EyeField \<Rightarrow> string \<Rightarrow> State \<Rightarrow> State" where
  "edit_rightEye f v w =
     w\<lparr>prescription := (prescription w)\<lparr>rightEye := Some (set_field f v (spread_eye (rightEye (prescription w))))\<rparr>\<rparr>"

definition edit_leftEye :: "EyeField \<Rightarrow> string \<Rightarrow> State \<Rightarrow> State" where
  "edit_leftEye f v w =
     w\<lparr>prescription := (prescription w)\<lparr>leftEye := Some (set_field f v (spread_eye (leftEye (prescription w))))\<rparr>\<rparr>"

definition edit_pd :: "string \<Rightarrow> State \<Rightarrow> State" where
  "edit_pd v w = w\<lparr>prescription := (prescription w)\<lparr>pd := Some v\<rparr>\<rparr>"

definition select_type :: "LensType \<Rightarrow> State \<Rightarrow> State" where
  \<comment> \<open>\<^verbatim>\<open>setLensSelection({...lensSelection, type: type as any})\<close>\<close>
  "select_type t w = w\<lparr>lensSelection := (lensSelection w)\<lparr>type := t\<rparr>\<rparr>"

definition select_material :: "LensMaterial \<Rightarrow> State \<Rightarrow> State" where
  \<comment> \<open>\<^verbatim>\<open>setLensSelection({...lensSelection, material: mat as any})\<close>\<close>
  "select_material m w = w\<lparr>lensSelection := (lensSelection w)\<lparr>material := m\<rparr>\<rparr>"

definition setStep :: "int \<Rightarrow> State \<Rightarrow> State" where
  "setStep n w = w\<lparr>step := n\<rparr>"

text \<open>
  \<^verbatim>\<open>
  if (step === 1) {
    setStep(2);
    if (!lensRecommendation && !isRecLoading) { fetchRecommendation(prescription); }
  } else {
    setStep(step + 1);
  }
  \<close>
\<close>

definition handleNextStep :: "(Prescription \<Rightarrow> string) \<Rightarrow> State \<Rightarrow> State" where
  "handleNextStep stringify w =
     (if step w = 1 then
        (let w1 = setStep 2 w in
         if \<not> truthy (lensRecommendation w) \<and> \<not> isRecLoading w
         then fetchRecommendation stringify (prescription w) w1
         else w1)
      else setStep (step w + 1) w)"

subsection \<open>\<^verbatim>\<open>handleFinish\<close> and \<^verbatim>\<open>addToCart\<close>\<close>

definition addToCart :: "CartLineItem \<Rightarrow> CartLineItem list \<Rightarrow> CartLineItem list" where
  \<comment> \<open>\<^verbatim>\<open>setCart(prev => [...prev, item])\<close>\<close>
  "addToCart item prev = prev @ [item]"

definition line_item :: "Product \<Rightarrow> State \<Rightarrow> CartLineItem" where
  "line_item product w =
     \<lparr>item_product = product,
      finalPrice = calculateTotal product (lensSelection w),
      item_prescription = (if isPower product then Some (prescription w) else None),
      item_lensSelection = (if isPower product then Some (lensSelection w) else None),
      customized = True\<rparr>"

definition handleFinish :: "Product \<Rightarrow> State \<Rightarrow> State" where
  \<comment> \<open>\<^verbatim>\<open>navigate('/cart')\<close> then leaves the customizer: the session ends here\<close>
  "handleFinish product w = w\<lparr>cart := addToCart (line_item product w) (cart w)\<rparr>"

subsection \<open>Events of a session\<close>

text \<open>
  What can happen to a mounted customizer: the controls the component renders, and the
  completion of a file read or of an external call that is in flight.
\<close>

datatype Event =
    EditRightEye EyeField string
  | EditLeftEye EyeField string
  | EditPd string
  | FileChosen bool
  | ReaderLoadEnd bool
  | ExtractionFulfilled Prescription
  | ExtractionRejected
  | AdvisoryFulfilled Prescription "string option"
  | AdvisoryRejected Prescription
  | NextStep
  | SelectType LensType
  | SelectMaterial LensMaterial
  | SetStep int

fun handle :: "(Prescription \<Rightarrow> string) \<Rightarrow> Event \<Rightarrow> State \<Rightarrow> State" where
  "handle stringify (EditRightEye f v) w = edit_rightEye f v w"
| "handle stringify (EditLeftEye f v) w = edit_leftEye f v w"
| "handle stringify (EditPd v) w = edit_pd v w"
| "handle stringify (FileChosen file) w = handleFileUpload file w"
| "handle stringify (ReaderLoadEnd result) w = reader_onloadend result w"
| "handle stringify (ExtractionFulfilled data) w = extraction_fulfilled stringify data w"
| "handle stringify ExtractionRejected w = extraction_rejected w"
| "handle stringify (AdvisoryFulfilled pData rec) w = fetchRecommendation_fulfilled stringify pData rec w"
| "handle stringify (AdvisoryRejected pData) w = fetchRecommendation_rejected pData w"
| "handle stringify NextStep w = handleNextStep stringify w"
| "handle stringify (SelectType t) w = select_type t w"
| "handle stringify (SelectMaterial m) w = select_material m w"
| "handle stringify (SetStep n) w = setStep n w"

text \<open>
  The render: a product that is not power-category gets the "Add to Cart" button only;
  a power-category product gets the prescription form, the file input and "Next" at
  step 1, the type and material buttons, "Back" (\<^verbatim>\<open>setStep(1)\<close>) and "Review"
  (\<^verbatim>\<open>setStep(3)\<close>) at step 2, and "Back" (\<^verbatim>\<open>setStep(2)\<close>) and "Add to Cart" at step 3.
\<close>

fun enabled :: "Product \<Rightarrow> State \<Rightarrow> Event \<Rightarrow> bool" where
  "enabled product w (EditRightEye f v) = (isPower product \<and> step w = 1)"
| "enabled product w (EditLeftEye f v) = (isPower product \<and> step w = 1)"
| "enabled product w (EditPd v) = (isPower product \<and> step w = 1)"
| "enabled product w (FileChosen file) = (isPower product \<and> step w = 1)"
| "enabled product w NextStep = (isPower product \<and> step w = 1)"
| "enabled product w (SelectType t) = (isPower product \<and> step w = 2)"
| "enabled product w (SelectMaterial m) = (isPower product \<and> step w = 2)"
| "enabled product w (SetStep n) =
     (isPower product \<and> (step w = 2 \<and> (n = 1 \<or> n = 3) \<or> step w = 3 \<and> n = 2))"
| "enabled product w (ReaderLoadEnd result) = (0 < readsPending w)"
| "enabled product w (ExtractionFulfilled data) = (0 < extractionPending w)"
| "enabled product w ExtractionRejected = (0 < extractionPending w)"
| "enabled product w (AdvisoryFulfilled pData rec) = (pData \<in> set (advisoryPending w))"
| "enabled product w (AdvisoryRejected pData) = (pData \<in> set (advisoryPending w))"

definition finish_enabled :: "Product \<Rightarrow> State \<Rightarrow> bool" where
  "finish_enabled product w \<longleftrightarrow> \<not> isPower product \<or> step w = 3"

fun run :: "(Prescription \<Rightarrow> string) \<Rightarrow> Product \<Rightarrow> Event list \<Rightarrow> State \<Rightarrow> State option" where
  "run stringify product [] w = Some w"
| "run stringify product (e # es) w =
     (if enabled product w e then run stringify product es (handle stringify e w) else None)"

fun is_edit :: "Event \<Rightarrow> bool" where
  "is_edit (EditRightEye f v) = True"
| "is_edit (EditLeftEye f v) = True"
| "is_edit (EditPd v) = True"
| "is_edit _ = False"

section \<open>What the specification says, for comparison\<close>




text \<open>
  The merge in the specification's words, down to the sub-fields of an eye: whatever the
  extraction result does not supply keeps its value. A sub-field is supplied when the
  result has the eye and the eye has the sub-field.
\<close>

definition sub_field :: "(Eye \<Rightarrow> string option) \<Rightarrow> Eye option \<Rightarrow> string option" where
  "sub_field f eye = (case eye of None \<Rightarrow> None | Some e \<Rightarrow> f e)"

definition kept :: "'a option \<Rightarrow> 'a option \<Rightarrow> 'a option \<Rightarrow> bool" where
  \<comment> \<open>\<open>kept supplied before after\<close>: nothing supplied, so the value is the one before\<close>
  "kept supplied before after = (if supplied = None then after = before else True)"

definition spec_field_by_field :: "Prescription \<Rightarrow> Prescription \<Rightarrow> Prescription \<Rightarrow> bool" where
  "spec_field_by_field prev data merged \<longleftrightarrow>
     kept (prescription_id data) (prescription_id prev) (prescription_id merged) \<and>
     kept (userId data) (userId prev) (userId merged) \<and>
     kept (pd data) (pd prev) (pd merged) \<and>
     kept (fileUrl data) (fileUrl prev) (fileUrl merged) \<and>
     list_all (\<lambda>f.
         kept (sub_field f (rightEye data)) (sub_field f (rightEye prev)) (sub_field f (rightEye merged)) \<and>
         kept (sub_field f (leftEye data)) (sub_field f (leftEye prev)) (sub_field f (leftEye merged)))
       [sph, cyl, axis]"

text \<open>
  Discarding the result of a call that resolves after the session has ended, in the
  specification's words: nothing of it is kept, called or shown. The predicate compares
  what outlives the session before and after the completion is handled.
\<close>

definition result_discarded :: "State \<Rightarrow> State \<Rightarrow> bool" where
  "result_discarded before after \<longleftrightarrow>
     recommendationCache after = recommendationCache before \<and>
     advisoryCalls after = advisoryCalls before \<and>
     alerts after = alerts before \<and>
     cart after = cart before"

text \<open>An instance of the serialization parameter for the examples: the text of \<open>pd\<close>.\<close>

definition pd_key :: "Prescription \<Rightarrow> string" where
  "pd_key p = (case pd p of Some v \<Rightarrow> v | None \<Rightarrow> [])"

text \<open>Two products of \<^verbatim>\<open>MOCK_PRODUCTS\<close>, for the examples.\<close>

definition aviator_classic :: Product where
  "aviator_classic =
     \<lparr>product_id = ''1'', name = ''Aviator Classic'', category = SUNGLASSES,
      brand = ''Ray-Ban'', price = 159,
      image_url = ''https://picsum.photos/seed/aviator/400/300'', stock = 25,
      description = ''Iconic teardrop shape that started it all.''\<rparr>"

definition wayfarer_smart :: Product where
  "wayfarer_smart =
     \<lparr>product_id = ''2'', name = ''Wayfarer Smart'', category = POWER_SPECTACLES,
      brand = ''Ray-Ban'', price = 189,
      image_url = ''https://picsum.photos/seed/wayfarer/400/300'', stock = 12,
      description = ''A modern twist on a legendary design, optimized for vision correction.''\<rparr>"

section \<open>Properties of the price calculator\<close>






section \<open>Properties of the session\<close>

lemmas handler_defs =
  edit_rightEye_def edit_leftEye_def edit_pd_def handleFileUpload_def reader_onloadend_def
  extraction_fulfilled_def extraction_rejected_def fetchRecommendation_def
  fetchRecommendation_fulfilled_def fetchRecommendation_rejected_def handleNextStep_def
  select_type_def select_material_def setStep_def

subsection \<open>The merge on extraction success\<close>

text \<open>
  C3, as stated, fails for the sub-fields of an eye: the spread is one level deep. With
  the default prescription and the extraction result \<^verbatim>\<open>{leftEye: {sph: "-2.00"}}\<close>, the
  result supplies neither \<^verbatim>\<open>leftEye.cyl\<close> nor \<^verbatim>\<open>leftEye.axis\<close>, and after the merge
  both are absent instead of keeping "0.00" and "0".
\<close>

theorem extraction_merge_not_deep_counterexample:
  "\<not> spec_field_by_field initial_prescription
     \<lparr>prescription_id = None, userId = None, rightEye = None,
      leftEye = Some \<lparr>sph = Some ''-2.00'', cyl = None, axis = None\<rparr>,
      pd = None, fileUrl = None\<rparr>
     (prescription (extraction_fulfilled pd_key
        \<lparr>prescription_id = None, userId = None, rightEye = None,
         leftEye = Some \<lparr>sph = Some ''-2.00'', cyl = None, axis = None\<rparr>,
         pd = None, fileUrl = None\<rparr>
        (init Map.empty [])))"
  by (simp add: spec_field_by_field_def kept_def sub_field_def initial_prescription_def
      extraction_fulfilled_def fetchRecommendation_def spread_def overlay_def Let_def init_def)

text \<open>
  C3, amended: for every state and every extraction result, the merge on extraction
  success overlays the result on the prescription one top-level field at a time. Each
  top-level field the result does not supply (\<open>id\<close>, \<open>userId\<close>, \<open>rightEye\<close>, \<open>leftEye\<close>,
  \<open>pd\<close>, \<open>fileUrl\<close>) keeps its value; an eye or a \<open>pd\<close> the result supplies replaces the
  existing one as a whole.
\<close>

theorem extraction_merge_top_level:
  "(prescription_id data = None \<longrightarrow>
      prescription_id (prescription (extraction_fulfilled stringify data w))
        = prescription_id (prescription w))
   \<and> (userId data = None \<longrightarrow>
      userId (prescription (extraction_fulfilled stringify data w)) = userId (prescription w))
   \<and> (rightEye data = None \<longrightarrow>
      rightEye (prescription (extraction_fulfilled stringify data w)) = rightEye (prescription w))
   \<and> (leftEye data = None \<longrightarrow>
      leftEye (prescription (extraction_fulfilled stringify data w)) = leftEye (prescription w))
   \<and> (pd data = None \<longrightarrow>
      pd (prescription (extraction_fulfilled stringify data w)) = pd (prescription w))
   \<and> (fileUrl data = None \<longrightarrow>
      fileUrl (prescription (extraction_fulfilled stringify data w)) = fileUrl (prescription w))
   \<and> (\<forall>e. rightEye data = Some e \<longrightarrow>
      rightEye (prescription (extraction_fulfilled stringify data w)) = Some e)
   \<and> (\<forall>e. leftEye data = Some e \<longrightarrow>
      leftEye (prescription (extraction_fulfilled stringify data w)) = Some e)
   \<and> (\<forall>v. pd data = Some v \<longrightarrow>
      pd (prescription (extraction_fulfilled stringify data w)) = Some v)"
  by (simp add: extraction_fulfilled_def fetchRecommendation_def spread_def overlay_def Let_def)

text \<open>
  The example of the specification: the right eye was edited to "-1.00", the result
  returns a left eye only; the right eye and \<open>pd\<close> are kept, the left eye is adopted.
\<close>

theorem extraction_merge_top_level_witness:
  "prescription
     (extraction_fulfilled pd_key
        \<lparr>prescription_id = None, userId = None, rightEye = None,
         leftEye = Some \<lparr>sph = Some ''-2.00'', cyl = Some ''0.50'', axis = Some ''90''\<rparr>,
         pd = None, fileUrl = None\<rparr>
        (edit_rightEye SPH ''-1.00'' (init Map.empty [])))
   = \<lparr>prescription_id = None, userId = None,
      rightEye = Some \<lparr>sph = Some ''-1.00'', cyl = Some ''0.00'', axis = Some ''0''\<rparr>,
      leftEye = Some \<lparr>sph = Some ''-2.00'', cyl = Some ''0.50'', axis = Some ''90''\<rparr>,
      pd = Some ''63'', fileUrl = None\<rparr>"
  using extraction_merge_top_level [of
      "\<lparr>prescription_id = None, userId = None, rightEye = None,
         leftEye = Some \<lparr>sph = Some ''-2.00'', cyl = Some ''0.50'', axis = Some ''90''\<rparr>,
         pd = None, fileUrl = None\<rparr>"
      pd_key "edit_rightEye SPH ''-1.00'' (init Map.empty [])"]
  by (simp add: edit_rightEye_def init_def initial_prescription_def spread_eye_def)

subsection \<open>Products that are not power-category\<close>

text \<open>
  C5: for a product that is not power-category, whatever the state of the session
  (its lens selection included), the line item that Finish commits has the base price
  as \<open>finalPrice\<close> and neither prescription nor lens selection, and it is appended to the
  cart. The steps are bypassed: in the freshly mounted customizer Finish is available and
  no other event is.
\<close>

theorem non_power_line_item:
  assumes "\<not> isPower product"
  shows "finalPrice (line_item product w) = Num (price product)
    \<and> item_prescription (line_item product w) = None
    \<and> item_lensSelection (line_item product w) = None
    \<and> cart (handleFinish product w) = cart w @ [line_item product w]
    \<and> finish_enabled product (init cache items)
    \<and> (\<forall>e. \<not> enabled product (init cache items) e)"
proof -
  have "\<not> enabled product (init cache items) e" for e
    using assms by (cases e) (simp_all add: init_def)
  then show ?thesis
    using assms
    by (simp add: line_item_def calculateTotal_def handleFinish_def addToCart_def
        finish_enabled_def)
qed

theorem non_power_line_item_witness:
  "\<not> isPower aviator_classic
   \<and> finalPrice (line_item aviator_classic
        ((init Map.empty [])\<lparr>lensSelection :=
           \<lparr>type = Progressive, material = HighIndex, coatings = [''Anti-glare''],
            priceAdjustment = 0\<rparr>\<rparr>)) = Num 159
   \<and> item_prescription (line_item aviator_classic
        ((init Map.empty [])\<lparr>lensSelection :=
           \<lparr>type = Progressive, material = HighIndex, coatings = [''Anti-glare''],
            priceAdjustment = 0\<rparr>\<rparr>)) = None
   \<and> item_lensSelection (line_item aviator_classic
        ((init Map.empty [])\<lparr>lensSelection :=
           \<lparr>type = Progressive, material = HighIndex, coatings = [''Anti-glare''],
            priceAdjustment = 0\<rparr>\<rparr>)) = None
   \<and> \<not> enabled aviator_classic (init Map.empty []) NextStep"
  using non_power_line_item [of aviator_classic
      "(init Map.empty [])\<lparr>lensSelection :=
           \<lparr>type = Progressive, material = HighIndex, coatings = [''Anti-glare''],
            priceAdjustment = 0\<rparr>\<rparr>" Map.empty "[]"]
  by (simp add: isPower_def aviator_classic_def)

subsection \<open>The recommendation cache\<close>

lemma handle_cache_truthy:
  "truthy (recommendationCache w k) \<Longrightarrow>
   truthy (recommendationCache (handle stringify e w) k)"
  by (cases e) (auto simp: handler_defs Let_def truthy_def split: option.splits)

lemma run_cache_truthy:
  "run stringify product evs w = Some w' \<Longrightarrow> truthy (recommendationCache w k) \<Longrightarrow>
   truthy (recommendationCache w' k)"
  by (induction evs arbitrary: w) (auto simp: handle_cache_truthy split: if_splits)

lemma fulfilled_cache_truthy:
  "truthy (recommendationCache (fetchRecommendation_fulfilled stringify pData rec w)
     (stringify pData))"
  by (simp add: fetchRecommendation_fulfilled_def truthy_def Let_def split: option.splits)

lemma fetchRecommendation_hit:
  "truthy (recommendationCache w (stringify pData)) \<Longrightarrow>
   fetchRecommendation stringify pData w
     = w\<lparr>lensRecommendation := recommendationCache w (stringify pData)\<rparr>"
  by (simp add: fetchRecommendation_def Let_def)

text \<open>
  C6, as stated, fails: a request made while the call of an earlier request with the
  same input is still in flight misses the cache and issues a second call. Two scans
  that return the same extraction result, both completing before any advisory call
  returns, request the advisory twice with the same input, and two calls are issued.
\<close>

theorem advisory_twice_two_calls_counterexample:
  "map_option advisoryCalls
     (run pd_key wayfarer_smart
        [FileChosen True, ReaderLoadEnd True,
         ExtractionFulfilled
           \<lparr>prescription_id = None, userId = None, rightEye = None,
            leftEye = Some \<lparr>sph = Some ''-2.00'', cyl = Some ''0.50'', axis = Some ''90''\<rparr>,
            pd = Some ''62'', fileUrl = None\<rparr>,
         FileChosen True, ReaderLoadEnd True,
         ExtractionFulfilled
           \<lparr>prescription_id = None, userId = None, rightEye = None,
            leftEye = Some \<lparr>sph = Some ''-2.00'', cyl = Some ''0.50'', axis = Some ''90''\<rparr>,
            pd = Some ''62'', fileUrl = None\<rparr>]
        (init Map.empty []))
   = Some
      [\<lparr>prescription_id = None, userId = None, rightEye = None,
        leftEye = Some \<lparr>sph = Some ''-2.00'', cyl = Some ''0.50'', axis = Some ''90''\<rparr>,
        pd = Some ''62'', fileUrl = None\<rparr>,
       \<lparr>prescription_id = None, userId = None, rightEye = None,
        leftEye = Some \<lparr>sph = Some ''-2.00'', cyl = Some ''0.50'', axis = Some ''90''\<rparr>,
        pd = Some ''62'', fileUrl = None\<rparr>]"
  by (simp add: init_def isPower_def wayfarer_smart_def handler_defs pd_key_def truthy_def
      Let_def)

text \<open>
  C6, amended: a request that misses the cache issues exactly one call; once that call
  has been fulfilled, and whatever happens in the session afterwards, a request whose
  input serializes to the same string issues no call and leaves the loading flag as it
  is: it sets the recommendation from the cache at once.
\<close>

theorem advisory_second_request_from_cache:
  assumes key: "stringify p2 = stringify p1"
    and miss: "\<not> truthy (recommendationCache w (stringify p1))"
    and later: "run stringify product evs
        (fetchRecommendation_fulfilled stringify p1 rec (fetchRecommendation stringify p1 w))
        = Some w2"
  shows "advisoryCalls (fetchRecommendation stringify p1 w) = advisoryCalls w @ [p1]
    \<and> advisoryCalls (fetchRecommendation stringify p2 w2) = advisoryCalls w2
    \<and> advisoryPending (fetchRecommendation stringify p2 w2) = advisoryPending w2
    \<and> isRecLoading (fetchRecommendation stringify p2 w2) = isRecLoading w2
    \<and> lensRecommendation (fetchRecommendation stringify p2 w2)
        = recommendationCache w2 (stringify p2)
    \<and> truthy (lensRecommendation (fetchRecommendation stringify p2 w2))"
proof -
  have hit: "truthy (recommendationCache w2 (stringify p2))"
    using run_cache_truthy [OF later fulfilled_cache_truthy] key by simp
  have first: "advisoryCalls (fetchRecommendation stringify p1 w) = advisoryCalls w @ [p1]"
    using miss by (simp add: fetchRecommendation_def Let_def)
  show ?thesis
    using hit first by (simp add: fetchRecommendation_hit)
qed

text \<open>
  Two requests for the default prescription on an empty cache, the first one fulfilled in
  between: one call in all, and the second request shows the cached text without
  loading.
\<close>

theorem advisory_second_request_from_cache_witness:
  "advisoryCalls
     (fetchRecommendation pd_key initial_prescription
       (fetchRecommendation_fulfilled pd_key initial_prescription (Some ''High Index.'')
         (fetchRecommendation pd_key initial_prescription (init Map.empty []))))
     = [initial_prescription]
   \<and> lensRecommendation
     (fetchRecommendation pd_key initial_prescription
       (fetchRecommendation_fulfilled pd_key initial_prescription (Some ''High Index.'')
         (fetchRecommendation pd_key initial_prescription (init Map.empty []))))
     = Some ''High Index.''
   \<and> isRecLoading
     (fetchRecommendation pd_key initial_prescription
       (fetchRecommendation_fulfilled pd_key initial_prescription (Some ''High Index.'')
         (fetchRecommendation pd_key initial_prescription (init Map.empty []))))
     = False"
  using advisory_second_request_from_cache [of pd_key initial_prescription
      initial_prescription "init Map.empty []" wayfarer_smart "[]" "Some ''High Index.''"
      "fetchRecommendation_fulfilled pd_key initial_prescription (Some ''High Index.'')
         (fetchRecommendation pd_key initial_prescription (init Map.empty []))"]
  by (simp add: init_def truthy_def fetchRecommendation_def fetchRecommendation_fulfilled_def
      Let_def pd_key_def initial_prescription_def)

subsection \<open>Extraction failure\<close>

text \<open>
  When the extraction call itself is rejected, the handler catches the failure: the
  message "Could not analyze prescription. Please enter manually." is shown (with
  \<^verbatim>\<open>alert\<close>), the scanning flag is cleared, and the prescription, the step and the lens
  selection are what they were. Every edit of a prescription field is enabled for a
  power-category product at step 1, as before.
\<close>

lemma extraction_rejected_keeps_prescription:
  "prescription (extraction_rejected w) = prescription w
   \<and> alerts (extraction_rejected w)
       = alerts w @ [''Could not analyze prescription. Please enter manually.'']
   \<and> isAiLoading (extraction_rejected w) = False
   \<and> step (extraction_rejected w) = step w
   \<and> lensSelection (extraction_rejected w) = lensSelection w
   \<and> (\<forall>e. is_edit e \<longrightarrow>
         enabled product (extraction_rejected w) e = (isPower product \<and> step w = 1))"
proof -
  have "is_edit e \<Longrightarrow>
      enabled product (extraction_rejected w) e = (isPower product \<and> step w = 1)" for e
    by (cases e) (simp_all add: extraction_rejected_def)
  then show ?thesis
    by (simp add: extraction_rejected_def)
qed

text \<open>
  C7 asks that a failed extraction attempt shows the message, leaves the prescription
  unchanged and keeps manual entry available. The code does not show the message when
  the attempt fails at the file read: \<^verbatim>\<open>reader.result\<close> is then \<^verbatim>\<open>null\<close>, and
  \<^verbatim>\<open>(reader.result as string).split(',')\<close> throws before the \<^verbatim>\<open>try\<close> is entered, so
  neither the \<^verbatim>\<open>catch\<close> nor the \<^verbatim>\<open>finally\<close> runs. The shopper sets \<open>pd\<close> to "61" and
  chooses a file whose read fails: no message is shown and the scanning flag stays set.
  The prescription is unchanged and \<open>pd\<close> can still be edited.
\<close>

theorem failed_file_read_shows_no_message:
  "(case run pd_key wayfarer_smart [EditPd ''61'', FileChosen True, ReaderLoadEnd False]
           (init Map.empty []) of
      None \<Rightarrow> False
    | Some w \<Rightarrow>
        alerts w = [] \<and> isAiLoading w = True
        \<and> prescription w = initial_prescription\<lparr>pd := Some ''61''\<rparr>
        \<and> enabled wayfarer_smart w (EditPd ''60''))"
  by (simp add: init_def isPower_def wayfarer_smart_def handler_defs)

subsection \<open>Completions after Finish\<close>

text \<open>
  C4, as stated, fails: the result of a call that resolves after the session has ended
  is not discarded. A file is chosen and read, the shopper goes on to step 3 while the
  extraction call is in flight, and finishes. The completion of the extraction is still
  handled, and its continuation issues an advisory call for the extracted data.
\<close>

theorem resolve_after_teardown_counterexample:
  "(case run pd_key wayfarer_smart [FileChosen True, ReaderLoadEnd True, NextStep, SetStep 3]
           (init Map.empty []) of
      None \<Rightarrow> False
    | Some w \<Rightarrow>
        finish_enabled wayfarer_smart w
        \<and> enabled wayfarer_smart (handleFinish wayfarer_smart w)
            (ExtractionFulfilled
               \<lparr>prescription_id = None, userId = None, rightEye = None,
                leftEye = Some \<lparr>sph = Some ''-2.00'', cyl = Some ''0.50'', axis = Some ''90''\<rparr>,
                pd = Some ''62'', fileUrl = None\<rparr>)
        \<and> \<not> result_discarded (handleFinish wayfarer_smart w)
            (handle pd_key
               (ExtractionFulfilled
                  \<lparr>prescription_id = None, userId = None, rightEye = None,
                   leftEye = Some \<lparr>sph = Some ''-2.00'', cyl = Some ''0.50'', axis = Some ''90''\<rparr>,
                   pd = Some ''62'', fileUrl = None\<rparr>)
               (handleFinish wayfarer_smart w)))"
  by (simp add: init_def isPower_def wayfarer_smart_def handler_defs pd_key_def truthy_def
      Let_def finish_enabled_def handleFinish_def result_discarded_def
      initial_prescription_def)

text \<open>
  C4, amended: Finish cancels nothing. A completion of an extraction or advisory call
  that was in flight can be handled after Finish exactly when it could before, and its
  continuation runs as written, with no teardown check: a fulfilled extraction issues an
  advisory call for its result unless the cache has a text for it, a rejected
  extraction shows the message, and a fulfilled advisory call stores its text in the
  process-wide cache. What the setter calls of the continuation do to the unmounted
  component is left out.
\<close>

theorem resolve_after_teardown:
  "enabled product (handleFinish product w) (ExtractionFulfilled data)
     = enabled product w (ExtractionFulfilled data)
   \<and> enabled product (handleFinish product w) ExtractionRejected
     = enabled product w ExtractionRejected
   \<and> enabled product (handleFinish product w) (AdvisoryFulfilled pData rec)
     = enabled product w (AdvisoryFulfilled pData rec)
   \<and> advisoryCalls (extraction_fulfilled stringify data (handleFinish product w))
     = advisoryCalls w @ (if truthy (recommendationCache w (stringify data)) then [] else [data])
   \<and> alerts (extraction_rejected (handleFinish product w))
     = alerts w @ [''Could not analyze prescription. Please enter manually.'']
   \<and> recommendationCache
       (fetchRecommendation_fulfilled stringify pData (Some (c # cs)) (handleFinish product w))
       (stringify pData) = Some (c # cs)"
  by (simp add: handleFinish_def extraction_fulfilled_def extraction_rejected_def
      fetchRecommendation_def fetchRecommendation_fulfilled_def Let_def)

text \<open>
  After Finish with an advisory call for the default prescription in flight: the call is
  fulfilled, and its text is in the cache under the key of the default prescription.
\<close>

theorem resolve_after_teardown_witness:
  "enabled wayfarer_smart
      (handleFinish wayfarer_smart (setStep 3 (handleNextStep pd_key (init Map.empty []))))
      (AdvisoryFulfilled initial_prescription (Some ''High Index.''))
   \<and> recommendationCache
       (fetchRecommendation_fulfilled pd_key initial_prescription (Some ''High Index.'')
          (handleFinish wayfarer_smart (setStep 3 (handleNextStep pd_key (init Map.empty [])))))
       ''63'' = Some ''High Index.''"
  using resolve_after_teardown [of wayfarer_smart
      "setStep 3 (handleNextStep pd_key (init Map.empty []))" initial_prescription
      initial_prescription "Some ''High Index.''" pd_key "CHR ''H''" "''igh Index.''"]
  by (simp add: init_def handler_defs Let_def truthy_def pd_key_def initial_prescription_def)

subsection \<open>The detour through the steps\<close>

lemma edits_run:
  "list_all is_edit edits \<Longrightarrow> isPower product \<Longrightarrow> step w = 1 \<Longrightarrow>
   \<exists>w1. run stringify product edits w = Some w1 \<and> step w1 = 1"
proof (induction edits arbitrary: w)
  case Nil
  then show ?case by simp
next
  case (Cons e es)
  from Cons.prems have e: "is_edit e" and es: "list_all is_edit es"
    by simp_all
  from e Cons.prems have en: "enabled product w e"
    by (cases e) simp_all
  from e Cons.prems have st: "step (handle stringify e w) = 1"
    by (cases e) (simp_all add: handler_defs)
  from Cons.IH [OF es Cons.prems(2) st] en show ?case
    by simp
qed

lemma fetchRecommendation_frame:
  "step (fetchRecommendation stringify p w) = step w"
  "prescription (fetchRecommendation stringify p w) = prescription w"
  by (simp_all add: fetchRecommendation_def Let_def)

lemma handleNextStep_frame:
  "step w = 1 \<Longrightarrow> step (handleNextStep stringify w) = 2"
  "prescription (handleNextStep stringify w) = prescription w"
  by (simp_all add: handleNextStep_def setStep_def fetchRecommendation_frame Let_def)

lemma detour_run:
  assumes "isPower product" and "step w1 = 1"
  shows "\<exists>w2. run stringify product [NextStep, SetStep 1, NextStep, SetStep 3] w1 = Some w2
     \<and> step w2 = 3 \<and> prescription w2 = prescription w1"
  using assms by (simp add: handleNextStep_frame setStep_def)

text \<open>
  C8: for a power-category product at step 1, after any edits of prescription fields,
  the traversal Next (1 to 2), Back (2 to 1), Next (1 to 2), Review (2 to 3) is possible,
  ends at step 3 where Finish is available, and leaves the prescription as the edits
  made it; the line item that Finish then appends to the cart carries that edited
  prescription.
\<close>

theorem detour_preserves_prescription:
  assumes "isPower product" and "step w0 = 1" and "list_all is_edit edits"
  shows "\<exists>w1 w2. run stringify product edits w0 = Some w1
     \<and> run stringify product [NextStep, SetStep 1, NextStep, SetStep 3] w1 = Some w2
     \<and> step w2 = 3 \<and> finish_enabled product w2
     \<and> prescription w2 = prescription w1
     \<and> cart (handleFinish product w2) = cart w2 @ [line_item product w2]
     \<and> item_prescription (line_item product w2) = Some (prescription w1)"
proof -
  from edits_run [OF assms(3) assms(1) assms(2)]
  obtain w1 where w1: "run stringify product edits w0 = Some w1" "step w1 = 1"
    by blast
  from detour_run [OF assms(1) w1(2)]
  obtain w2 where w2:
      "run stringify product [NextStep, SetStep 1, NextStep, SetStep 3] w1 = Some w2"
      "step w2 = 3" "prescription w2 = prescription w1"
    by blast
  have "finish_enabled product w2"
    using w2(2) by (simp add: finish_enabled_def)
  moreover have "cart (handleFinish product w2) = cart w2 @ [line_item product w2]"
    by (simp add: handleFinish_def addToCart_def)
  moreover have "item_prescription (line_item product w2) = Some (prescription w1)"
    using assms(1) w2(3) by (simp add: line_item_def)
  ultimately show ?thesis
    using w1 w2 by blast
qed

text \<open>
  The right sphere is set to "-1.25" and \<open>pd\<close> to "61" at step 1; after the detour the
  committed line item has these values, not the defaults "0.00" and "63".
\<close>

theorem detour_preserves_prescription_witness:
  "isPower wayfarer_smart
   \<and> step (init Map.empty []) = 1
   \<and> list_all is_edit [EditRightEye SPH ''-1.25'', EditPd ''61'']
   \<and> (case run pd_key wayfarer_smart
          ([EditRightEye SPH ''-1.25'', EditPd ''61'']
           @ [NextStep, SetStep 1, NextStep, SetStep 3]) (init Map.empty []) of
        None \<Rightarrow> False
      | Some w \<Rightarrow>
          item_prescription (last (cart (handleFinish wayfarer_smart w)))
            = Some \<lparr>prescription_id = None, userId = None,
                rightEye = Some \<lparr>sph = Some ''-1.25'', cyl = Some ''0.00'', axis = Some ''0''\<rparr>,
                leftEye = Some \<lparr>sph = Some ''0.00'', cyl = Some ''0.00'', axis = Some ''0''\<rparr>,
                pd = Some ''61'', fileUrl = None\<rparr>)"
proof -
  have p: "isPower wayfarer_smart"
    by (simp add: isPower_def wayfarer_smart_def)
  have s: "step (init Map.empty []) = 1"
    by (simp add: init_def)
  have e: "list_all is_edit [EditRightEye SPH ''-1.25'', EditPd ''61'']"
    by simp
  from detour_preserves_prescription [OF p s e, of pd_key]
  obtain w1 w2 where
    r1: "run pd_key wayfarer_smart [EditRightEye SPH ''-1.25'', EditPd ''61'']
           (init Map.empty []) = Some w1"
    and r2: "run pd_key wayfarer_smart [NextStep, SetStep 1, NextStep, SetStep 3] w1 = Some w2"
    and c: "cart (handleFinish wayfarer_smart w2) = cart w2 @ [line_item wayfarer_smart w2]"
    and i: "item_prescription (line_item wayfarer_smart w2) = Some (prescription w1)"
    by blast
  from r1 p have w1: "w1 = edit_pd ''61'' (edit_rightEye SPH ''-1.25'' (init Map.empty []))"
    by (simp add: init_def edit_rightEye_def edit_pd_def)
  have r: "run pd_key wayfarer_smart
          ([EditRightEye SPH ''-1.25'', EditPd ''61'']
           @ [NextStep, SetStep 1, NextStep, SetStep 3]) (init Map.empty []) = Some w2"
    using r1 r2 p by (simp add: init_def edit_rightEye_def edit_pd_def split: if_splits)
  show ?thesis
    using p s e r c i w1
    by (simp add: init_def edit_rightEye_def edit_pd_def initial_prescription_def
        spread_eye_def)
qed

subsection \<open>What no event of a session writes\<close>

lemma handle_coatings:
  "coatings (lensSelection (handle stringify e w)) = coatings (lensSelection w)"
  by (cases e) (simp_all add: handler_defs Let_def)

lemma handle_priceAdjustment:
  "priceAdjustment (lensSelection (handle stringify e w)) = priceAdjustment (lensSelection w)"
  by (cases e) (simp_all add: handler_defs Let_def)

lemma run_coatings:
  "run stringify product evs w = Some w' \<Longrightarrow>
   coatings (lensSelection w') = coatings (lensSelection w)"
  by (induction evs arbitrary: w) (auto simp: handle_coatings split: if_splits)

lemma run_priceAdjustment:
  "run stringify product evs w = Some w' \<Longrightarrow>
   priceAdjustment (lensSelection w') = priceAdjustment (lensSelection w)"
  by (induction evs arbitrary: w) (auto simp: handle_priceAdjustment split: if_splits)

lemma calculateTotal_no_coatings:
  "coatings ls = [] \<Longrightarrow>
   calculateTotal product ls =
     Num (price product +
          (if isPower product
           then LENS_PRICING_types (type ls) + LENS_PRICING_materials (material ls)
           else 0))"
  by (simp add: calculateTotal_def)

lemma calculateTotal_ignores_priceAdjustment:
  "calculateTotal product (ls\<lparr>priceAdjustment := x\<rparr>) = calculateTotal product ls"
  by (simp add: calculateTotal_def Let_def)

text \<open>
  C9: in every state a session reaches from its initial state, whatever the events
  (edits, file uploads and their outcomes, advisory outcomes, type and material
  selections, step changes), the coatings list of the lens selection is empty, and the
  price of the line item that Finish would commit is the base price plus, for a
  power-category product, the adjustments of type and material: the coatings contribute
  0.
\<close>

theorem reachable_coatings_empty:
  assumes "run stringify product evs (init cache items) = Some w"
  shows "coatings (lensSelection w) = []
    \<and> finalPrice (line_item product w) =
        Num (price product +
          (if isPower product
           then LENS_PRICING_types (type (lensSelection w))
                + LENS_PRICING_materials (material (lensSelection w))
           else 0))"
proof -
  have c: "coatings (lensSelection w) = []"
    using run_coatings [OF assms] by (simp add: init_def initial_lensSelection_def)
  then show ?thesis
    by (simp add: line_item_def calculateTotal_no_coatings)
qed

theorem reachable_coatings_empty_witness:
  "run pd_key wayfarer_smart
      [NextStep, SelectType Progressive, SelectMaterial HighIndex, SetStep 3]
      (init Map.empty [])
     = Some (setStep 3 (select_material HighIndex (select_type Progressive
         (handleNextStep pd_key (init Map.empty [])))))
   \<and> coatings (lensSelection (setStep 3 (select_material HighIndex (select_type Progressive
         (handleNextStep pd_key (init Map.empty [])))))) = []
   \<and> finalPrice (line_item wayfarer_smart
        (setStep 3 (select_material HighIndex (select_type Progressive
         (handleNextStep pd_key (init Map.empty [])))))) = Num 539"
proof -
  have r: "run pd_key wayfarer_smart
      [NextStep, SelectType Progressive, SelectMaterial HighIndex, SetStep 3]
      (init Map.empty [])
     = Some (setStep 3 (select_material HighIndex (select_type Progressive
         (handleNextStep pd_key (init Map.empty [])))))"
    by (simp add: init_def isPower_def wayfarer_smart_def handler_defs Let_def truthy_def)
  from reachable_coatings_empty [OF r] r show ?thesis
    by (simp add: isPower_def wayfarer_smart_def handler_defs Let_def truthy_def init_def)
qed

text \<open>
  C10: \<open>priceAdjustment\<close> is 0 in the initial lens selection and in every state a
  session reaches, so it is 0 in the lens selection of every line item that Finish
  commits with one; and the committed price does not depend on the field: it is the same
  whatever value the field is given.
\<close>

theorem reachable_priceAdjustment_zero:
  assumes "run stringify product evs (init cache items) = Some w"
  shows "priceAdjustment (lensSelection (init cache items)) = 0
    \<and> priceAdjustment (lensSelection w) = 0
    \<and> (\<forall>ls. item_lensSelection (line_item product w) = Some ls \<longrightarrow> priceAdjustment ls = 0)
    \<and> (\<forall>x. calculateTotal product ((lensSelection w)\<lparr>priceAdjustment := x\<rparr>)
             = finalPrice (line_item product w))"
proof -
  have i: "priceAdjustment (lensSelection (init cache items)) = 0"
    by (simp add: init_def initial_lensSelection_def)
  then have "priceAdjustment (lensSelection w) = 0"
    using run_priceAdjustment [OF assms] by simp
  with i show ?thesis
    by (simp add: line_item_def calculateTotal_ignores_priceAdjustment)
qed

theorem reachable_priceAdjustment_zero_witness:
  "run pd_key wayfarer_smart
      [NextStep, SelectType Bifocal, SelectMaterial Polycarbonate, SetStep 3]
      (init Map.empty [])
     = Some (setStep 3 (select_material Polycarbonate (select_type Bifocal
         (handleNextStep pd_key (init Map.empty [])))))
   \<and> item_lensSelection (line_item wayfarer_smart
        (setStep 3 (select_material Polycarbonate (select_type Bifocal
         (handleNextStep pd_key (init Map.empty []))))))
     = Some \<lparr>type = Bifocal, material = Polycarbonate, coatings = [], priceAdjustment = 0\<rparr>"
proof -
  have r: "run pd_key wayfarer_smart
      [NextStep, SelectType Bifocal, SelectMaterial Polycarbonate, SetStep 3]
      (init Map.empty [])
     = Some (setStep 3 (select_material Polycarbonate (select_type Bifocal
         (handleNextStep pd_key (init Map.empty [])))))"
    by (simp add: init_def isPower_def wayfarer_smart_def handler_defs Let_def truthy_def)
  from reachable_priceAdjustment_zero [OF r] r show ?thesis
    by (simp add: isPower_def wayfarer_smart_def handler_defs Let_def truthy_def init_def
        line_item_def initial_lensSelection_def)
qed

subsection \<open>The price at Finish\<close>





end
